theory Spec2Isabelle
  imports Complex_Main "HOL-Library.Word" "HOL-Library.Monad_Syntax"
begin

unbundle bit_operations_syntax

section \<open>Doubles\<close>

text \<open>
  The C functions of rtd_calculator.c take and return \<^verbatim>\<open>double\<close>. A finite double is
  modelled as a real number (rounding and overflow are idealised away); a non-finite double
  (an infinity or a NaN) is the value \<open>NonFinite\<close>. The arguments of the functions are finite.
  Two operations of the source can leave the finite doubles: a division whose divisor is
  zero, and \<^verbatim>\<open>sqrt\<close> of a negative number. Every later operation of the source on such a
  value (adding or subtracting a finite number, multiplying by a constant, \<^verbatim>\<open>pow\<close> with
  an exponent from 1 to 4, \<^verbatim>\<open>sqrt\<close>, dividing by a constant) is non-finite again, which
  is what the bind of the option monad does.
\<close>

type_synonym double = "real option"

abbreviation Finite :: "real \<Rightarrow> double" where
  "Finite \<equiv> Some"

abbreviation NonFinite :: double where
  "NonFinite \<equiv> None"

definition ddiv :: "real \<Rightarrow> real \<Rightarrow> double" where
  "ddiv x y = (if y = 0 then NonFinite else Finite (x / y))"

definition dsqrt :: "real \<Rightarrow> double" where
  "dsqrt x = (if x < 0 then NonFinite else Finite (sqrt x))"

section \<open>rtd\_calculator.h\<close>

text \<open>
  The header rtd\_calculator.h is not part of the sources at hand. Its macros, the selector
  codes and the constants A, B, C of each family, are the fields of a record that every
  function takes as its first argument.
\<close>

record rtd_header =
  PT_385 :: "8 word"
  PT_391 :: "8 word"
  M_428 :: "8 word"
  N_617 :: "8 word"
  PT_A_385 :: real
  PT_B_385 :: real
  PT_C_385 :: real
  PT_A_391 :: real
  PT_B_391 :: real
  PT_C_391 :: real
  M_A_428 :: real
  M_B_428 :: real
  M_C_428 :: real
  N_A_617 :: real
  N_B_617 :: real
  N_C_617 :: real

text \<open>
  Modelled from the spec: the values of the macros of rtd\_calculator.h. The spec requires
  the constants to match the tables of the governing standard to six significant digits,
  and rtd\_calculator.c names that standard, GOST 6651-2009; its coefficient tables D are
  those of the standard. The constants below are the standard's A, B and C. The selector
  codes are four distinct bytes; the driver passes 0 for a Pt100 (385) sensor.
\<close>

definition gost :: rtd_header where
  "gost = \<lparr> PT_385 = 0, PT_391 = 1, M_428 = 2, N_617 = 3,
     PT_A_385 = 39083 / 10 ^ 7, PT_B_385 = - 5775 / 10 ^ 10, PT_C_385 = - 4183 / 10 ^ 15,
     PT_A_391 = 39690 / 10 ^ 7, PT_B_391 = - 5841 / 10 ^ 10, PT_C_391 = - 4330 / 10 ^ 15,
     M_A_428 = 428 / 10 ^ 5, M_B_428 = - 62032 / 10 ^ 11, M_C_428 = 85154 / 10 ^ 14,
     N_A_617 = 54963 / 10 ^ 7, N_B_617 = 67556 / 10 ^ 10, N_C_617 = 92004 / 10 ^ 13 \<rparr>"

section \<open>rtd\_calculator.c\<close>

subsection \<open>Coefficient tables\<close>

definition PT_D_385 :: "real list" where
  "PT_D_385 = [255819 / 1000, 914550 / 100000, - 292363 / 100000, 179090 / 100000]"

definition PT_D_391 :: "real list" where
  "PT_D_391 = [251903 / 1000, 880035 / 100000, - 291506 / 100000, 167611 / 100000]"

definition M_D_428 :: "real list" where
  "M_D_428 = [23387 / 100, 79370 / 10000, - 20062 / 10000, - 3953 / 10000]"

definition N_D_617 :: "real list" where
  "N_D_617 = [144096 / 1000, - 25502 / 1000, 44876 / 10000]"

subsection \<open>Platinum\<close>

text \<open>
  The loop \<^verbatim>\<open>for (uint8_t i = 1; i <= 4; i++)\<close> of \<^verbatim>\<open>Get_Temperature_PT\<close>, with the
  selector tested in its body as in the source: an unrecognised selector runs the loop
  without dividing.
\<close>

function PT_loop :: "rtd_header \<Rightarrow> real \<Rightarrow> real \<Rightarrow> 8 word \<Rightarrow> 8 word \<Rightarrow> double \<Rightarrow> double" where
  "PT_loop h Resistance R0 Type i Temperature =
     (if i \<le> 4 then
        PT_loop h Resistance R0 Type (i + 1)
          (if Type = PT_385 h then
             do { t \<leftarrow> Temperature; q \<leftarrow> ddiv Resistance R0;
                  Finite (t + PT_D_385 ! unat (i - 1) * (q - 1) ^ unat i) }
           else if Type = PT_391 h then
             do { t \<leftarrow> Temperature; q \<leftarrow> ddiv Resistance R0;
                  Finite (t + PT_D_391 ! unat (i - 1) * (q - 1) ^ unat i) }
           else Temperature)
      else Temperature)"
  by pat_completeness auto
termination
  by (relation "measure (\<lambda>(h, Resistance, R0, Type, i, Temperature). 5 - unat i)")
     (auto simp: word_le_nat_alt unat_word_ariths)

definition Get_Temperature_PT :: "rtd_header \<Rightarrow> real \<Rightarrow> real \<Rightarrow> 8 word \<Rightarrow> double" where
  "Get_Temperature_PT h Resistance R0 Type =
     (if Resistance < R0 then PT_loop h Resistance R0 Type 1 (Finite 0)
      else if Type = PT_385 h then
        do { q \<leftarrow> ddiv Resistance R0;
             s \<leftarrow> dsqrt ((PT_A_385 h)\<^sup>2 - 4 * PT_B_385 h * (1 - q));
             ddiv (s - PT_A_385 h) (2 * PT_B_385 h) }
      else if Type = PT_391 h then
        do { q \<leftarrow> ddiv Resistance R0;
             s \<leftarrow> dsqrt ((PT_A_391 h)\<^sup>2 - 4 * PT_B_391 h * (1 - q));
             ddiv (s - PT_A_391 h) (2 * PT_B_391 h) }
      else Finite 0)"

definition Get_Resistance_PT :: "rtd_header \<Rightarrow> real \<Rightarrow> real \<Rightarrow> 8 word \<Rightarrow> real" where
  "Get_Resistance_PT h Temperature R0 Type =
     (if Temperature < 0 then
        (if Type = PT_385 h then
           R0 * (1 + PT_A_385 h * Temperature + PT_B_385 h * Temperature\<^sup>2
                 + PT_C_385 h * (Temperature - 100) * Temperature ^ 3)
         else if Type = PT_391 h then
           R0 * (1 + PT_A_391 h * Temperature + PT_B_391 h * Temperature\<^sup>2
                 + PT_C_391 h * (Temperature - 100) * Temperature ^ 3)
         else 0)
      else
        (if Type = PT_385 h then
           R0 * (1 + PT_A_385 h * Temperature + PT_B_385 h * Temperature\<^sup>2)
         else if Type = PT_391 h then
           R0 * (1 + PT_A_391 h * Temperature + PT_B_391 h * Temperature\<^sup>2)
         else 0))"

subsection \<open>Copper\<close>

function M_loop :: "rtd_header \<Rightarrow> real \<Rightarrow> real \<Rightarrow> 8 word \<Rightarrow> 8 word \<Rightarrow> double \<Rightarrow> double" where
  "M_loop h Resistance R0 Type i Temperature =
     (if i \<le> 4 then
        M_loop h Resistance R0 Type (i + 1)
          (if Type = M_428 h then
             do { t \<leftarrow> Temperature; q \<leftarrow> ddiv Resistance R0;
                  Finite (t + M_D_428 ! unat (i - 1) * (q - 1) ^ unat i) }
           else Temperature)
      else Temperature)"
  by pat_completeness auto
termination
  by (relation "measure (\<lambda>(h, Resistance, R0, Type, i, Temperature). 5 - unat i)")
     (auto simp: word_le_nat_alt unat_word_ariths)

definition Get_Temperature_M :: "rtd_header \<Rightarrow> real \<Rightarrow> real \<Rightarrow> 8 word \<Rightarrow> double" where
  "Get_Temperature_M h Resistance R0 Type =
     (if Resistance < R0 then M_loop h Resistance R0 Type 1 (Finite 0)
      else if Type = M_428 h then
        do { q \<leftarrow> ddiv Resistance R0; ddiv (q - 1) (M_A_428 h) }
      else Finite 0)"

definition Get_Resistance_M :: "rtd_header \<Rightarrow> real \<Rightarrow> real \<Rightarrow> 8 word \<Rightarrow> real" where
  "Get_Resistance_M h Temperature R0 Type =
     (if Temperature < 0 then
        (if Type = M_428 h then
           R0 * (1 + M_A_428 h * Temperature + M_B_428 h * Temperature * (Temperature + 67 / 10)
                 + M_C_428 h * Temperature ^ 3)
         else 0)
      else
        (if Type = M_428 h then R0 * (1 + M_A_428 h * Temperature) else 0))"

subsection \<open>Nickel\<close>

text \<open>The knee resistance \<^verbatim>\<open>Temp_start\<close>, initialised to 0 and set for three values of R0.\<close>

definition Temp_start :: "real \<Rightarrow> real" where
  "Temp_start R0 =
     (if R0 = 100 then 16172 / 100
      else if R0 = 500 then 80859 / 100
      else if R0 = 1000 then 16172 / 10
      else 0)"

function N_loop :: "real \<Rightarrow> real \<Rightarrow> 8 word \<Rightarrow> double \<Rightarrow> double" where
  "N_loop Resistance R0 i Temperature =
     (if i \<le> 3 then
        N_loop Resistance R0 (i + 1)
          (do { t \<leftarrow> Temperature; q \<leftarrow> ddiv Resistance R0;
                Finite (t + N_D_617 ! unat (i - 1) * (q - 16172 / 10000) ^ unat i) })
      else Temperature)"
  by pat_completeness auto
termination
  by (relation "measure (\<lambda>(Resistance, R0, i, Temperature). 4 - unat i)")
     (auto simp: word_le_nat_alt unat_word_ariths)

text \<open>The two branches of \<^verbatim>\<open>Get_Temperature_N\<close>: below the knee, and at or above it.\<close>

definition N_below_knee :: "rtd_header \<Rightarrow> real \<Rightarrow> real \<Rightarrow> double" where
  "N_below_knee h Resistance R0 =
     do { q \<leftarrow> ddiv Resistance R0;
          s \<leftarrow> dsqrt ((N_A_617 h)\<^sup>2 - 4 * N_B_617 h * (1 - q));
          ddiv (s - N_A_617 h) (2 * N_B_617 h) }"

definition N_from_knee :: "real \<Rightarrow> real \<Rightarrow> double" where
  "N_from_knee Resistance R0 =
     do { t \<leftarrow> N_loop Resistance R0 1 (Finite 0); Finite (t + 100) }"

definition Get_Temperature_N :: "rtd_header \<Rightarrow> real \<Rightarrow> real \<Rightarrow> 8 word \<Rightarrow> double" where
  "Get_Temperature_N h Resistance R0 Type =
     (if Type = N_617 h then
        (if Resistance < Temp_start R0 then N_below_knee h Resistance R0
         else N_from_knee Resistance R0)
      else Finite 0)"

definition Get_Resistance_N :: "rtd_header \<Rightarrow> real \<Rightarrow> real \<Rightarrow> 8 word \<Rightarrow> real" where
  "Get_Resistance_N h Temperature R0 Type =
     (if Type = N_617 h then
        (if Temperature < 100 then
           R0 * (1 + N_A_617 h * Temperature + N_B_617 h * Temperature\<^sup>2)
         else
           R0 * (1 + N_A_617 h * Temperature + N_B_617 h * Temperature\<^sup>2
                 + N_C_617 h * (Temperature - 100) * Temperature\<^sup>2))
      else 0)"

section \<open>MAX31865.c\<close>

text \<open>
  The driver keeps one flag, \<^verbatim>\<open>MAX31865_Sensor_Error\<close>, and talks to the chip over SPI.
  The state of the model is that flag and the frames transmitted so far; the seven bytes
  that \<^verbatim>\<open>MAX31865_Get_Resistance\<close> receives into \<^verbatim>\<open>MAX31865_rx_buffer\<close> are an
  argument of the model.
\<close>

record max31865 =
  MAX31865_Sensor_Error :: bool
  spi_transmitted :: "8 word list list"

record rx_data_MAX31865 =
  RTD_Resistance_Registers :: "16 word"
  High_Fault_Threshold :: "16 word"
  Low_Fault_Threshold :: "16 word"
  Fault_Status :: "8 word"

definition MAX31865_R_REF :: real where
  "MAX31865_R_REF = 4285 / 10"

definition MAX31865_Init :: "8 word \<Rightarrow> max31865 \<Rightarrow> max31865" where
  "MAX31865_Init num_wires st =
     (let cfg = [0x80, 0x00];
          cfg = (if num_wires = 2 \<or> num_wires = 4 then cfg[1 := 0xC3]
                 else if num_wires = 3 then cfg[1 := 0xD3]
                 else cfg)
      in st\<lparr>MAX31865_Sensor_Error := False, spi_transmitted := spi_transmitted st @ [cfg]\<rparr>)"

text \<open>
  \<^verbatim>\<open>(hi << 8) | lo\<close> on two bytes: C promotes both to \<^verbatim>\<open>int\<close>, 32 bits wide here, and
  the value stays below \<open>2 ^ 16\<close>, so the sign bit is never reached.
\<close>

definition bytes_to_int :: "8 word \<Rightarrow> 8 word \<Rightarrow> 32 word" where
  "bytes_to_int hi lo = push_bit 8 (ucast hi) OR ucast lo"

definition MAX31865_Get_Resistance :: "8 word list \<Rightarrow> max31865 \<Rightarrow> real \<times> max31865" where
  "MAX31865_Get_Resistance MAX31865_rx_buffer st =
     (let st = st\<lparr>spi_transmitted := spi_transmitted st @ [[0x01]]\<rparr>;
          MAX31865_receieve_data =
            \<lparr> RTD_Resistance_Registers =
                 ucast (drop_bit 1 (bytes_to_int (MAX31865_rx_buffer ! 0) (MAX31865_rx_buffer ! 1))),
               High_Fault_Threshold =
                 ucast (drop_bit 1 (bytes_to_int (MAX31865_rx_buffer ! 2) (MAX31865_rx_buffer ! 3))),
               Low_Fault_Threshold =
                 ucast (bytes_to_int (MAX31865_rx_buffer ! 4) (MAX31865_rx_buffer ! 5)),
               Fault_Status = MAX31865_rx_buffer ! 6 \<rparr>;
          st = (if Fault_Status MAX31865_receieve_data > 0x00
                then (MAX31865_Init 3 (st\<lparr>MAX31865_Sensor_Error := True\<rparr>))
                       \<lparr>MAX31865_Sensor_Error := False\<rparr>
                else st)
      in (real (unat (RTD_Resistance_Registers MAX31865_receieve_data)) * MAX31865_R_REF / 32768, st))"

section \<open>The formulas of the specification\<close>

text \<open>
  The closed-form root \<open>(sqrt (A\<^sup>2 - 4 B (1 - x)) - A) / (2 B)\<close> of the specification, at
  \<open>x = Resistance / R0\<close>, as a double: where the expression has no real value (a negative
  radicand, or \<open>B = 0\<close>) its value is non-finite.
\<close>

definition quadratic_root :: "real \<Rightarrow> real \<Rightarrow> real \<Rightarrow> double" where
  "quadratic_root A B x =
     (if 0 \<le> A\<^sup>2 - 4 * B * (1 - x) \<and> B \<noteq> 0
      then Finite ((sqrt (A\<^sup>2 - 4 * B * (1 - x)) - A) / (2 * B))
      else NonFinite)"

text \<open>Section 4.1, resistance to temperature, for a coefficient table \<open>D\<close> and constants \<open>A\<close>, \<open>B\<close>.\<close>

definition spec_Temperature_PT :: "real list \<Rightarrow> real \<Rightarrow> real \<Rightarrow> real \<Rightarrow> real \<Rightarrow> double" where
  "spec_Temperature_PT D A B Resistance R0 =
     (if Resistance < R0 then Finite (\<Sum>i = 1..4. D ! (i - 1) * (Resistance / R0 - 1) ^ i)
      else quadratic_root A B (Resistance / R0))"

text \<open>Section 4.3, resistance to temperature, for a knee resistance \<open>knee\<close>.\<close>

definition spec_Temperature_N :: "real \<Rightarrow> real \<Rightarrow> real \<Rightarrow> real \<Rightarrow> real \<Rightarrow> double" where
  "spec_Temperature_N A B knee Resistance R0 =
     (if Resistance < knee then quadratic_root A B (Resistance / R0)
      else Finite (100 + (\<Sum>i = 1..3. N_D_617 ! (i - 1) * (Resistance / R0 - 16172 / 10000) ^ i)))"

text \<open>Section 8: a result is within \<open>eps\<close> of \<open>T\<close>; a non-finite result is within no tolerance.\<close>

definition within_tolerance :: "real \<Rightarrow> real \<Rightarrow> double \<Rightarrow> bool" where
  "within_tolerance eps T r = (case r of Finite t \<Rightarrow> \<bar>t - T\<bar> \<le> eps | NonFinite \<Rightarrow> False)"

section \<open>Evaluation lemmas\<close>

lemma gost_simps:
  "PT_385 gost = 0" "PT_391 gost = 1" "M_428 gost = 2" "N_617 gost = 3"
  "PT_A_385 gost = 39083 / 10 ^ 7" "PT_B_385 gost = - 5775 / 10 ^ 10" "PT_C_385 gost = - 4183 / 10 ^ 15"
  "PT_A_391 gost = 39690 / 10 ^ 7" "PT_B_391 gost = - 5841 / 10 ^ 10" "PT_C_391 gost = - 4330 / 10 ^ 15"
  "M_A_428 gost = 428 / 10 ^ 5" "M_B_428 gost = - 62032 / 10 ^ 11" "M_C_428 gost = 85154 / 10 ^ 14"
  "N_A_617 gost = 54963 / 10 ^ 7" "N_B_617 gost = 67556 / 10 ^ 10" "N_C_617 gost = 92004 / 10 ^ 13"
  by (simp_all add: gost_def)

lemma gost_codes: "PT_391 gost \<noteq> PT_385 gost"
  by (simp add: gost_simps)

lemmas pows = power2_eq_square power3_eq_cube power4_eq_xxxx

lemma sum_1_4: "(\<Sum>i = Suc 0..4. f i) = f (Suc 0) + f 2 + f 3 + (f 4 :: real)"
proof -
  have "{Suc 0..4} = {Suc 0, 2, 3, 4}" by auto
  then show ?thesis by simp
qed

lemma sum_1_3: "(\<Sum>i = Suc 0..3. f i) = f (Suc 0) + f 2 + (f 3 :: real)"
proof -
  have "{Suc 0..3} = {Suc 0, 2, 3}" by auto
  then show ?thesis by simp
qed

section \<open>The loops as sums\<close>

text \<open>Each loop runs its body for \<open>i = 1, 2, 3, 4\<close> (nickel: \<open>1, 2, 3\<close>) and stops.\<close>

lemma PT_loop_385:
  "PT_loop h Resistance R0 (PT_385 h) 1 (Finite 0) =
     do { q \<leftarrow> ddiv Resistance R0; Finite (\<Sum>i = 1..4. PT_D_385 ! (i - 1) * (q - 1) ^ i) }"
  apply (subst PT_loop.simps)
  apply (subst PT_loop.simps)
  apply (subst PT_loop.simps)
  apply (subst PT_loop.simps)
  apply (subst PT_loop.simps)
  apply (simp add: sum_1_4 ddiv_def)
  done

lemma PT_loop_391:
  "PT_391 h \<noteq> PT_385 h \<Longrightarrow> PT_loop h Resistance R0 (PT_391 h) 1 (Finite 0) =
     do { q \<leftarrow> ddiv Resistance R0; Finite (\<Sum>i = 1..4. PT_D_391 ! (i - 1) * (q - 1) ^ i) }"
  apply (subst PT_loop.simps)
  apply (subst PT_loop.simps)
  apply (subst PT_loop.simps)
  apply (subst PT_loop.simps)
  apply (subst PT_loop.simps)
  apply (simp add: sum_1_4 ddiv_def)
  done

lemma PT_loop_other:
  "Type \<noteq> PT_385 h \<Longrightarrow> Type \<noteq> PT_391 h \<Longrightarrow> PT_loop h Resistance R0 Type 1 T = T"
  apply (subst PT_loop.simps)
  apply (subst PT_loop.simps)
  apply (subst PT_loop.simps)
  apply (subst PT_loop.simps)
  apply (subst PT_loop.simps)
  apply simp
  done

lemma M_loop_428:
  "M_loop h Resistance R0 (M_428 h) 1 (Finite 0) =
     do { q \<leftarrow> ddiv Resistance R0; Finite (\<Sum>i = 1..4. M_D_428 ! (i - 1) * (q - 1) ^ i) }"
  apply (subst M_loop.simps)
  apply (subst M_loop.simps)
  apply (subst M_loop.simps)
  apply (subst M_loop.simps)
  apply (subst M_loop.simps)
  apply (simp add: sum_1_4 ddiv_def)
  done

lemma M_loop_other:
  "Type \<noteq> M_428 h \<Longrightarrow> M_loop h Resistance R0 Type 1 T = T"
  apply (subst M_loop.simps)
  apply (subst M_loop.simps)
  apply (subst M_loop.simps)
  apply (subst M_loop.simps)
  apply (subst M_loop.simps)
  apply simp
  done

lemma N_loop_sum:
  "N_loop Resistance R0 1 (Finite 0) =
     do { q \<leftarrow> ddiv Resistance R0;
          Finite (\<Sum>i = 1..3. N_D_617 ! (i - 1) * (q - 16172 / 10000) ^ i) }"
  apply (subst N_loop.simps)
  apply (subst N_loop.simps)
  apply (subst N_loop.simps)
  apply (subst N_loop.simps)
  apply (simp add: sum_1_3 ddiv_def)
  done

section \<open>The source against the formulas of the specification\<close>

lemma quadratic_branch:
  "R0 \<noteq> 0 \<Longrightarrow>
   do { q \<leftarrow> ddiv Resistance R0; s \<leftarrow> dsqrt (A\<^sup>2 - 4 * B * (1 - q)); ddiv (s - A) (2 * B) }
     = quadratic_root A B (Resistance / R0)"
  by (simp add: ddiv_def dsqrt_def quadratic_root_def)

lemma PT_385_spec:
  "0 < R0 \<Longrightarrow> Get_Temperature_PT h Resistance R0 (PT_385 h)
           = spec_Temperature_PT PT_D_385 (PT_A_385 h) (PT_B_385 h) Resistance R0"
  by (simp add: Get_Temperature_PT_def spec_Temperature_PT_def PT_loop_385 quadratic_branch)
     (simp add: ddiv_def sum_1_4)

lemma PT_391_spec:
  "0 < R0 \<Longrightarrow> PT_391 h \<noteq> PT_385 h \<Longrightarrow> Get_Temperature_PT h Resistance R0 (PT_391 h)
           = spec_Temperature_PT PT_D_391 (PT_A_391 h) (PT_B_391 h) Resistance R0"
  by (simp add: Get_Temperature_PT_def spec_Temperature_PT_def PT_loop_391 quadratic_branch)
     (simp add: ddiv_def sum_1_4)

lemma M_428_below:
  "0 < R0 \<Longrightarrow> Resistance < R0 \<Longrightarrow> Get_Temperature_M h Resistance R0 (M_428 h)
      = Finite (\<Sum>i = 1..4. M_D_428 ! (i - 1) * (Resistance / R0 - 1) ^ i)"
  by (simp add: Get_Temperature_M_def M_loop_428 ddiv_def sum_1_4)

lemma N_617_spec:
  "R0 \<noteq> 0 \<Longrightarrow> Get_Temperature_N h Resistance R0 (N_617 h)
           = spec_Temperature_N (N_A_617 h) (N_B_617 h) (Temp_start R0) Resistance R0"
  by (simp add: Get_Temperature_N_def spec_Temperature_N_def N_below_knee_def
        N_from_knee_def N_loop_sum quadratic_branch) (simp add: ddiv_def sum_1_3)

lemma Get_Resistance_PT_385:
  "Get_Resistance_PT h T R0 (PT_385 h) =
     R0 * (if T < 0 then 1 + PT_A_385 h * T + PT_B_385 h * T\<^sup>2 + PT_C_385 h * (T - 100) * T ^ 3
           else 1 + PT_A_385 h * T + PT_B_385 h * T\<^sup>2)"
  by (simp add: Get_Resistance_PT_def)

lemma Get_Resistance_PT_391:
  "PT_391 h \<noteq> PT_385 h \<Longrightarrow> Get_Resistance_PT h T R0 (PT_391 h) =
     R0 * (if T < 0 then 1 + PT_A_391 h * T + PT_B_391 h * T\<^sup>2 + PT_C_391 h * (T - 100) * T ^ 3
           else 1 + PT_A_391 h * T + PT_B_391 h * T\<^sup>2)"
  by (simp add: Get_Resistance_PT_def)

lemma Get_Resistance_M_428:
  "Get_Resistance_M h T R0 (M_428 h) =
     R0 * (if T < 0 then 1 + M_A_428 h * T + M_B_428 h * T * (T + 67 / 10) + M_C_428 h * T ^ 3
           else 1 + M_A_428 h * T)"
  by (simp add: Get_Resistance_M_def)

lemma Get_Resistance_N_617:
  "Get_Resistance_N h T R0 (N_617 h) =
     R0 * (if T < 100 then 1 + N_A_617 h * T + N_B_617 h * T\<^sup>2
           else 1 + N_A_617 h * T + N_B_617 h * T\<^sup>2 + N_C_617 h * (T - 100) * T\<^sup>2)"
  by (simp add: Get_Resistance_N_def)

section \<open>Resistance to temperature: the branches\<close>

text \<open>
  C1. For a positive R0, \<^verbatim>\<open>Get_Temperature_PT\<close> with the selector of a platinum family
  returns, when the resistance is strictly below R0, the sum over \<open>i = 1..4\<close> of
  \<open>D[i-1] * (Resistance/R0 - 1)^i\<close> with the family's table, and otherwise the value of
  \<open>(sqrt(A\<^sup>2 - 4 B (1 - Resistance/R0)) - A) / (2 B)\<close> with the family's constants; the
  comparison of the resistance with R0 alone selects the branch. The 391 selector is
  reached when its code differs from the 385 code, which the source tests first.
\<close>

theorem Get_Temperature_PT_branches:
  assumes "0 < R0"
  shows "Get_Temperature_PT h Resistance R0 (PT_385 h)
           = spec_Temperature_PT PT_D_385 (PT_A_385 h) (PT_B_385 h) Resistance R0
       \<and> (PT_391 h \<noteq> PT_385 h \<longrightarrow>
           Get_Temperature_PT h Resistance R0 (PT_391 h)
             = spec_Temperature_PT PT_D_391 (PT_A_391 h) (PT_B_391 h) Resistance R0)"
  using assms by (simp add: PT_385_spec PT_391_spec)

theorem Get_Temperature_PT_branches_witness:
  "(0::real) < 100 \<and> PT_391 gost \<noteq> PT_385 gost
   \<and> Get_Temperature_PT gost 100 100 (PT_385 gost) = Finite 0
   \<and> Get_Temperature_PT gost 50 100 (PT_391 gost) = Finite (- 197251637 / 1600000)"
proof -
  have pos: "(0::real) < 100" by simp
  have "quadratic_root (PT_A_385 gost) (PT_B_385 gost) (100 / 100) = Finite 0"
    by (simp add: quadratic_root_def gost_simps)
  then have a: "Get_Temperature_PT gost 100 100 (PT_385 gost) = Finite 0"
    using Get_Temperature_PT_branches [OF pos, of gost 100] by (simp add: spec_Temperature_PT_def)
  have "(\<Sum>i = 1..4. PT_D_391 ! (i - 1) * ((50::real) / 100 - 1) ^ i) = - 197251637 / 1600000"
    by (simp add: sum_1_4 PT_D_391_def pows)
  then have b: "Get_Temperature_PT gost 50 100 (PT_391 gost) = Finite (- 197251637 / 1600000)"
    using Get_Temperature_PT_branches [OF pos, of gost 50]
    by (simp add: spec_Temperature_PT_def gost_simps)
  from pos a b gost_codes show ?thesis by simp
qed

text \<open>
  C2. For the nickel selector and R0 among 100, 500 and 1000, the knee \<^verbatim>\<open>Temp_start\<close> is
  161.72, 808.59 and 1617.2; \<^verbatim>\<open>Get_Temperature_N\<close> returns the quadratic closed form for
  a resistance below the knee, and 100 plus the sum over \<open>i = 1..3\<close> of
  \<open>D[i-1] * (Resistance/R0 - 1.6172)^i\<close> for a resistance at or above it.
\<close>

theorem Get_Temperature_N_branches:
  assumes "R0 \<in> {100, 500, 1000}"
  shows "Temp_start R0 = (if R0 = 100 then 16172 / 100 else if R0 = 500 then 80859 / 100 else 16172 / 10)
       \<and> Get_Temperature_N h Resistance R0 (N_617 h)
           = spec_Temperature_N (N_A_617 h) (N_B_617 h) (Temp_start R0) Resistance R0"
proof -
  from assms have nz: "R0 \<noteq> 0" by auto
  from assms have "Temp_start R0 = (if R0 = 100 then 16172 / 100 else if R0 = 500 then 80859 / 100 else 16172 / 10)"
    by (auto simp: Temp_start_def)
  with nz show ?thesis by (simp add: N_617_spec)
qed

theorem Get_Temperature_N_branches_witness:
  "(100::real) \<in> {100, 500, 1000} \<and> Temp_start 100 = 16172 / 100
   \<and> Get_Temperature_N gost 100 100 (N_617 gost) = Finite 0
   \<and> Get_Temperature_N gost 200 100 (N_617 gost) = Finite (5924793706316467 / 39062500000000)"
proof -
  have m: "(100::real) \<in> {100, 500, 1000}" by simp
  have k: "Temp_start 100 = 16172 / 100" by (simp add: Temp_start_def)
  have "quadratic_root (N_A_617 gost) (N_B_617 gost) (100 / 100) = Finite 0"
    by (simp add: quadratic_root_def gost_simps)
  then have a: "Get_Temperature_N gost 100 100 (N_617 gost) = Finite 0"
    using Get_Temperature_N_branches [OF m, of gost 100] k by (simp add: spec_Temperature_N_def)
  have "100 + (\<Sum>i = 1..3. N_D_617 ! (i - 1) * ((200::real) / 100 - 16172 / 10000) ^ i)
          = 5924793706316467 / 39062500000000"
    by (simp add: sum_1_3 N_D_617_def pows)
  then have b: "Get_Temperature_N gost 200 100 (N_617 gost) = Finite (5924793706316467 / 39062500000000)"
    using Get_Temperature_N_branches [OF m, of gost 200] k by (simp add: spec_Temperature_N_def)
  from m k a b show ?thesis by simp
qed

text \<open>
  C10. For the nickel selector and an R0 other than 100, 500 and 1000, \<^verbatim>\<open>Temp_start\<close> keeps
  its initial value 0, so for every non-negative resistance \<^verbatim>\<open>Get_Temperature_N\<close> takes the
  branch at or above the knee, whose value (R0 not zero) is 100 plus the three-term series in
  \<open>Resistance/R0 - 1.6172\<close>.
\<close>

theorem Get_Temperature_N_unlisted_R0:
  assumes "R0 \<notin> {100, 500, 1000}" and "0 \<le> Resistance"
  shows "Temp_start R0 = 0
       \<and> Get_Temperature_N h Resistance R0 (N_617 h) = N_from_knee Resistance R0
       \<and> (R0 \<noteq> 0 \<longrightarrow> N_from_knee Resistance R0 =
            Finite (100 + (\<Sum>i = 1..3. N_D_617 ! (i - 1) * (Resistance / R0 - 16172 / 10000) ^ i)))"
  using assms
  by (simp add: Temp_start_def Get_Temperature_N_def N_from_knee_def N_loop_sum ddiv_def sum_1_3)

theorem Get_Temperature_N_unlisted_R0_witness:
  "(200::real) \<notin> {100, 500, 1000} \<and> (0::real) \<le> 400 \<and> Temp_start 200 = 0 \<and> (200::real) \<noteq> 0
   \<and> Get_Temperature_N gost 400 200 (N_617 gost) = Finite (5924793706316467 / 39062500000000)"
proof -
  have a: "(200::real) \<notin> {100, 500, 1000}" and b: "(0::real) \<le> 400" by simp_all
  have "100 + (\<Sum>i = 1..3. N_D_617 ! (i - 1) * ((400::real) / 200 - 16172 / 10000) ^ i)
          = 5924793706316467 / 39062500000000"
    by (simp add: sum_1_3 N_D_617_def pows)
  then show ?thesis
    using Get_Temperature_N_unlisted_R0 [OF a b, of gost] by simp
qed

section \<open>Temperature to resistance at zero degrees\<close>

text \<open>
  C3. At temperature 0 every temperature-to-resistance function returns R0, for each
  family's selector and every R0.
\<close>

theorem Get_Resistance_at_zero:
  "Get_Resistance_PT h 0 R0 (PT_385 h) = R0 \<and> Get_Resistance_PT h 0 R0 (PT_391 h) = R0
   \<and> Get_Resistance_M h 0 R0 (M_428 h) = R0 \<and> Get_Resistance_N h 0 R0 (N_617 h) = R0"
  by (simp add: Get_Resistance_PT_def Get_Resistance_M_def Get_Resistance_N_def)

section \<open>Unrecognised selectors\<close>

text \<open>
  C6. Called with a selector that is none of its recognised ones, each of the six functions
  returns zero, for every resistance or temperature \<open>x\<close> and every R0 (zero included: no
  division is reached).
\<close>

theorem unrecognised_selector_zero:
  "(Type \<noteq> PT_385 h \<and> Type \<noteq> PT_391 h \<longrightarrow>
      Get_Temperature_PT h x R0 Type = Finite 0 \<and> Get_Resistance_PT h x R0 Type = 0)
   \<and> (Type \<noteq> M_428 h \<longrightarrow>
      Get_Temperature_M h x R0 Type = Finite 0 \<and> Get_Resistance_M h x R0 Type = 0)
   \<and> (Type \<noteq> N_617 h \<longrightarrow>
      Get_Temperature_N h x R0 Type = Finite 0 \<and> Get_Resistance_N h x R0 Type = 0)"
  by (simp add: Get_Temperature_PT_def Get_Resistance_PT_def PT_loop_other
        Get_Temperature_M_def Get_Resistance_M_def M_loop_other
        Get_Temperature_N_def Get_Resistance_N_def)

theorem unrecognised_selector_zero_witness:
  "(9::8 word) \<noteq> PT_385 gost \<and> 9 \<noteq> PT_391 gost \<and> 9 \<noteq> M_428 gost \<and> 9 \<noteq> N_617 gost
   \<and> Get_Temperature_PT gost 50 0 9 = Finite 0 \<and> Get_Resistance_PT gost (- 5) 100 9 = 0
   \<and> Get_Temperature_M gost 50 0 9 = Finite 0 \<and> Get_Resistance_M gost (- 5) 100 9 = 0
   \<and> Get_Temperature_N gost 50 0 9 = Finite 0 \<and> Get_Resistance_N gost (- 5) 100 9 = 0"
  using unrecognised_selector_zero [of 9 gost 50 0] unrecognised_selector_zero [of 9 gost "- 5" 100]
  by (simp add: gost_simps)

section \<open>The constants against the ranges listed in rtd\_calculator.c\<close>

text \<open>
  The header comment of rtd\_calculator.c lists, for each supported sensor, the resistance
  at both ends of its temperature range, to two decimals. The constants of \<open>gost\<close>
  reproduce all twenty of them.
\<close>

lemma gost_ranges_PT_385:
  "\<bar>Get_Resistance_PT gost (- 200) 100 (PT_385 gost) - 1852 / 100\<bar> \<le> 5 / 1000"
  "\<bar>Get_Resistance_PT gost 850 100 (PT_385 gost) - 39048 / 100\<bar> \<le> 5 / 1000"
  "\<bar>Get_Resistance_PT gost (- 200) 500 (PT_385 gost) - 9260 / 100\<bar> \<le> 5 / 1000"
  "\<bar>Get_Resistance_PT gost 850 500 (PT_385 gost) - 195241 / 100\<bar> \<le> 5 / 1000"
  "\<bar>Get_Resistance_PT gost (- 200) 1000 (PT_385 gost) - 18520 / 100\<bar> \<le> 5 / 1000"
  "\<bar>Get_Resistance_PT gost 850 1000 (PT_385 gost) - 390481 / 100\<bar> \<le> 5 / 1000"
  unfolding Get_Resistance_PT_385 by (simp_all add: gost_simps pows)

lemma gost_ranges_PT_391:
  "\<bar>Get_Resistance_PT gost (- 200) 50 (PT_391 gost) - 862 / 100\<bar> \<le> 5 / 1000"
  "\<bar>Get_Resistance_PT gost 850 50 (PT_391 gost) - 19758 / 100\<bar> \<le> 5 / 1000"
  "\<bar>Get_Resistance_PT gost (- 200) 100 (PT_391 gost) - 1724 / 100\<bar> \<le> 5 / 1000"
  "\<bar>Get_Resistance_PT gost 850 100 (PT_391 gost) - 39516 / 100\<bar> \<le> 5 / 1000"
  unfolding Get_Resistance_PT_391 [OF gost_codes] by (simp_all add: gost_simps pows)

lemma gost_ranges_M_428:
  "\<bar>Get_Resistance_M gost (- 180) 50 (M_428 gost) - 1026 / 100\<bar> \<le> 5 / 1000"
  "\<bar>Get_Resistance_M gost 200 50 (M_428 gost) - 9280 / 100\<bar> \<le> 5 / 1000"
  "\<bar>Get_Resistance_M gost (- 180) 100 (M_428 gost) - 2053 / 100\<bar> \<le> 5 / 1000"
  "\<bar>Get_Resistance_M gost 200 100 (M_428 gost) - 18560 / 100\<bar> \<le> 5 / 1000"
  unfolding Get_Resistance_M_428 by (simp_all add: gost_simps pows)

lemma gost_ranges_N_617:
  "\<bar>Get_Resistance_N gost (- 60) 100 (N_617 gost) - 6945 / 100\<bar> \<le> 5 / 1000"
  "\<bar>Get_Resistance_N gost 180 100 (N_617 gost) - 22321 / 100\<bar> \<le> 5 / 1000"
  "\<bar>Get_Resistance_N gost (- 60) 500 (N_617 gost) - 34727 / 100\<bar> \<le> 5 / 1000"
  "\<bar>Get_Resistance_N gost 180 500 (N_617 gost) - 111603 / 100\<bar> \<le> 5 / 1000"
  "\<bar>Get_Resistance_N gost (- 60) 1000 (N_617 gost) - 69454 / 100\<bar> \<le> 5 / 1000"
  "\<bar>Get_Resistance_N gost 180 1000 (N_617 gost) - 223206 / 100\<bar> \<le> 5 / 1000"
  unfolding Get_Resistance_N_617 by (simp_all add: gost_simps pows)

section \<open>Monotonicity of temperature to resistance\<close>














section \<open>Round trip\<close>

lemma quadratic_root_inverse:
  assumes "B \<noteq> 0" and "0 \<le> A + 2 * B * T"
  shows "quadratic_root A B (1 + A * T + B * T\<^sup>2) = Finite T"
proof -
  have d: "A\<^sup>2 - 4 * B * (1 - (1 + A * T + B * T\<^sup>2)) = (A + 2 * B * T)\<^sup>2"
    by (simp add: power2_eq_square algebra_simps)
  have "sqrt ((A + 2 * B * T)\<^sup>2) = A + 2 * B * T"
    using assms(2) by simp
  with assms(1) show ?thesis
    unfolding quadratic_root_def d by simp
qed

lemma quadratic_root_round_trip:
  assumes "R0 \<noteq> 0" "B \<noteq> 0" "0 \<le> A + 2 * B * T"
  shows "quadratic_root A B (R0 * (1 + A * T + B * T\<^sup>2) / R0) = Finite T"
  using assms by (simp add: quadratic_root_inverse)











text \<open>
  The same holds on every other polynomial branch: platinum 391 at -200, copper at -150,
  nickel (R0 = 100) at 110; and for nickel with R0 = 200, where the knee is 0 and the series
  is used at 50 degrees, the round trip is off by more than 0.2.
\<close>

lemma GR_PT_391_m200: "Get_Resistance_PT gost (- 200) 100 (PT_391 gost) = 172444 / 10000"
  unfolding Get_Resistance_PT_391 [OF gost_codes] by (simp add: gost_simps pows)

lemma round_trip_PT_391_m200:
  "\<not> within_tolerance (1 / 1000) (- 200)
       (Get_Temperature_PT gost (Get_Resistance_PT gost (- 200) 100 (PT_391 gost)) 100 (PT_391 gost))"
  unfolding GR_PT_391_m200
  by (simp add: PT_391_spec gost_codes spec_Temperature_PT_def sum_1_4 PT_D_391_def pows within_tolerance_def)

lemma GR_M_428_m150: "Get_Resistance_M gost (- 150) 100 (M_428 gost) = 3417922741 / 100000000"
  unfolding Get_Resistance_M_428 by (simp add: gost_simps pows)

lemma round_trip_M_428_m150:
  "\<not> within_tolerance (1 / 1000) (- 150)
       (Get_Temperature_M gost (Get_Resistance_M gost (- 150) 100 (M_428 gost)) 100 (M_428 gost))"
  unfolding GR_M_428_m150
  by (simp add: M_428_below sum_1_4 M_D_428_def pows within_tolerance_def)

lemma GR_N_617_110: "Get_Resistance_N gost 110 100 (N_617 gost) = 16874490084 / 100000000"
  unfolding Get_Resistance_N_617 by (simp add: gost_simps pows)

lemma round_trip_N_617_110:
  "\<not> within_tolerance (1 / 1000) 110
       (Get_Temperature_N gost (Get_Resistance_N gost 110 100 (N_617 gost)) 100 (N_617 gost))"
  unfolding GR_N_617_110
  by (simp add: N_617_spec spec_Temperature_N_def Temp_start_def sum_1_3 N_D_617_def pows within_tolerance_def)

lemma GR_N_617_50_200: "Get_Resistance_N gost 50 200 (N_617 gost) = 2583408 / 10000"
  unfolding Get_Resistance_N_617 by (simp add: gost_simps pows)

lemma round_trip_N_617_50_200:
  "\<not> within_tolerance (1 / 5) 50
       (Get_Temperature_N gost (Get_Resistance_N gost 50 200 (N_617 gost)) 200 (N_617 gost))"
  unfolding GR_N_617_50_200
  by (simp add: N_617_spec spec_Temperature_N_def Temp_start_def sum_1_3 N_D_617_def pows within_tolerance_def)

section \<open>A nominal resistance of zero\<close>

lemma PT_loop_zero_R0:
  "Type = PT_385 h \<or> Type = PT_391 h \<Longrightarrow> PT_loop h Resistance 0 Type 1 (Finite 0) = NonFinite"
  apply (subst PT_loop.simps)
  apply (subst PT_loop.simps)
  apply (subst PT_loop.simps)
  apply (subst PT_loop.simps)
  apply (subst PT_loop.simps)
  apply (auto simp: ddiv_def)
  done

text \<open>
  C7, as stated, fails: nothing guards the division. With R0 = 0 and the 385 selector a
  resistance of 50 ohms is divided by zero and the result is not finite.
\<close>

theorem zero_R0_PT_385_non_finite:
  "Get_Temperature_PT gost 50 0 (PT_385 gost) = NonFinite"
  by (simp add: Get_Temperature_PT_def ddiv_def)

text \<open>
  C7, amended. With R0 = 0 and a recognised selector, each resistance-to-temperature
  function divides by R0 unguarded and returns a non-finite double, for every resistance and
  whatever the constants of the header are; no invalid-nominal-resistance condition exists.
\<close>

theorem zero_R0_unguarded:
  "Get_Temperature_PT h Resistance 0 (PT_385 h) = NonFinite
   \<and> Get_Temperature_PT h Resistance 0 (PT_391 h) = NonFinite
   \<and> Get_Temperature_M h Resistance 0 (M_428 h) = NonFinite
   \<and> Get_Temperature_N h Resistance 0 (N_617 h) = NonFinite"
  by (simp add: Get_Temperature_PT_def PT_loop_zero_R0 Get_Temperature_M_def M_loop_428
      Get_Temperature_N_def N_below_knee_def N_from_knee_def N_loop_sum ddiv_def)

section \<open>Where the results are finite\<close>











section \<open>The driver's resistance read-out\<close>

lemma byte_bound: "unat (b :: 8 word) < 256"
proof -
  have "unat b < 2 ^ LENGTH(8)" by (rule unsigned_less)
  then show ?thesis by simp
qed

lemma len16: "LENGTH(16) = 16"
  by simp

lemma bytes_to_int_unat: "unat (bytes_to_int hi lo) = 256 * unat hi + unat lo"
proof -
  have hi: "unat hi < 256" and lo: "unat lo < 256"
    using byte_bound [of hi] byte_bound [of lo] by simp_all
  have "push_bit 8 (ucast hi :: 32 word) OR ucast lo = push_bit 8 (ucast hi) + ucast lo"
    by (rule disjunctive_add [symmetric]) (auto simp: bit_simps dest: bit_imp_le_length)
  then have "unat (bytes_to_int hi lo) = unat (push_bit 8 (ucast hi :: 32 word) + ucast lo)"
    by (simp add: bytes_to_int_def)
  also have "\<dots> = 256 * unat hi + unat lo"
    using hi lo by (simp add: unat_word_ariths unsigned_push_bit_eq unsigned_ucast_eq push_bit_eq_mult take_bit_eq_mod)
  finally show ?thesis .
qed

lemma RTD_register_unat:
  "unat (ucast (drop_bit 1 (bytes_to_int hi lo)) :: 16 word) = (256 * unat hi + unat lo) div 2"
proof -
  have hi: "unat hi < 256" and lo: "unat lo < 256"
    using byte_bound [of hi] byte_bound [of lo] by simp_all
  have "unat (drop_bit 1 (bytes_to_int hi lo)) = drop_bit 1 (unat (bytes_to_int hi lo))"
    by (rule unat_drop_bit_eq)
  then have "unat (drop_bit 1 (bytes_to_int hi lo)) = (256 * unat hi + unat lo) div 2"
    by (simp only: bytes_to_int_unat drop_bit_eq_div power_one_right)
  moreover have "(256 * unat hi + unat lo) div 2 < 2 ^ 16"
    using hi lo by simp
  ultimately show ?thesis
    by (simp only: unsigned_ucast_eq take_bit_eq_mod len16 mod_less)
qed

text \<open>
  C9. \<^verbatim>\<open>MAX31865_Get_Resistance\<close> returns \<open>adc_code * 428.5 / 32768\<close>, where
  \<open>adc_code\<close> is the 16-bit big-endian value of the first two received bytes shifted
  right by one, a 15-bit number.
\<close>

theorem MAX31865_Get_Resistance_value:
  assumes "length rx = 7"
  shows "fst (MAX31865_Get_Resistance rx st)
           = real ((256 * unat (rx ! 0) + unat (rx ! 1)) div 2) * (4285 / 10) / 32768
       \<and> (256 * unat (rx ! 0) + unat (rx ! 1)) div 2 < 2 ^ 15"
proof -
  have "unat (rx ! 0) < 256" "unat (rx ! 1) < 256"
    using byte_bound [of "rx ! 0"] byte_bound [of "rx ! 1"] by simp_all
  then have "(256 * unat (rx ! 0) + unat (rx ! 1)) div 2 < 2 ^ 15" by simp
  moreover have "fst (MAX31865_Get_Resistance rx st)
      = real (unat (ucast (drop_bit 1 (bytes_to_int (rx ! 0) (rx ! 1))) :: 16 word)) * MAX31865_R_REF / 32768"
    by (simp add: MAX31865_Get_Resistance_def Let_def)
  ultimately show ?thesis
    by (simp only: RTD_register_unat MAX31865_R_REF_def simp_thms)
qed

theorem MAX31865_Get_Resistance_value_witness:
  "length [0x40, 0x00, 0xFF, 0xFF, 0x00, 0x00, 0x00 :: 8 word] = 7
   \<and> fst (MAX31865_Get_Resistance [0x40, 0x00, 0xFF, 0xFF, 0x00, 0x00, 0x00]
            \<lparr>MAX31865_Sensor_Error = False, spi_transmitted = []\<rparr>) = 107125 / 1000"
  using MAX31865_Get_Resistance_value [of "[0x40, 0x00, 0xFF, 0xFF, 0x00, 0x00, 0x00]"
              "\<lparr>MAX31865_Sensor_Error = False, spi_transmitted = []\<rparr>"]
  by simp

end
